theory Spec2Isabelle
  imports Complex_Main "HOL-Library.AList"
begin

section \<open>Data model of the synchronisation server\<close>

text \<open>
  The embedding covers the socket handlers of \<^verbatim>\<open>src/server.js\<close>, the room-creation
  route, and the class \<^verbatim>\<open>SyncService\<close>.

  \<^item> \<^verbatim>\<open>Date.now()\<close> is an integer number of milliseconds: \<open>int\<close>.
  \<^item> Playback positions are JavaScript numbers; they are idealised as \<open>real\<close>, so the
    arithmetic below is exact where the doubles of the program round.
  \<^item> A handler runs to completion before the next event is taken. Its clock reading
    is the parameter \<open>now\<close>; every \<^verbatim>\<open>Date.now()\<close> and \<^verbatim>\<open>new Date()\<close> evaluated during one
    invocation yields that reading.
  \<^item> The playback state of a room is one JavaScript object that both the \<^verbatim>\<open>rooms\<close> map
    of the server and the \<^verbatim>\<open>rooms\<close> map of the \<^verbatim>\<open>SyncService\<close> point to. It lives in an
    explicit store (\<open>heap\<close>), and both room records hold its address.
  \<^item> Payload fields have the types the handlers use them at (a room id and a message
    are strings, a position is a number).
\<close>

type_synonym ref = nat

record playbackState =
  isPlaying :: bool
  currentTime :: real
  lastUpdate :: int

record viewer =
  viewer_id :: string
  viewer_username :: string
  joinedAt :: int

record chatMessage =
  msg_id :: string
  msg_username :: "string option"
  message :: string
  timestamp :: int

record reaction =
  reaction_id :: string
  reaction_username :: "string option"
  emoji :: string
  reaction_timestamp :: int

datatype transcodeStatus = Pending | Processing | Completed | Failed

record movie =
  movie_id :: string
  originalName :: string
  transcodeStatus :: transcodeStatus

text \<open>
  A room of \<^verbatim>\<open>server.js\<close>. The field \<^verbatim>\<open>movie\<close> of the source is a second reference to the
  movie found under \<open>movieId\<close> and is not repeated here.
\<close>

record room =
  room_id :: string
  room_name :: string
  movieId :: string
  createdAt :: int
  viewers :: "viewer list"
  playbackState :: ref
  chat :: "chatMessage list"
  reactions :: "reaction list"

text \<open>A room of the \<^verbatim>\<open>SyncService\<close>.\<close>

record syncRoom =
  sync_id :: string
  sync_playbackState :: ref
  syncTolerance :: nat
  lastSyncBroadcast :: int

text \<open>The properties the handlers attach to a socket object.\<close>

record socketData =
  socket_roomId :: "string option"
  socket_username :: "string option"

text \<open>
  The whole server. \<open>rooms\<close> and \<open>movies\<close> are the two maps of \<^verbatim>\<open>server.js\<close>; \<open>syncRooms\<close> is
  the \<^verbatim>\<open>Map\<close> of the \<^verbatim>\<open>SyncService\<close>, kept as an association list in insertion order
  because \<^verbatim>\<open>forEach\<close> walks it. \<open>members\<close> is the room membership kept by socket.io
  (\<^verbatim>\<open>socket.join\<close>, \<^verbatim>\<open>socket.leave\<close>).
\<close>

record state =
  rooms :: "string \<rightharpoonup> room"
  movies :: "string \<rightharpoonup> movie"
  syncRooms :: "(string \<times> syncRoom) list"
  heap :: "ref \<Rightarrow> playbackState"
  nextRef :: ref
  sock :: "string \<Rightarrow> socketData"
  members :: "string \<Rightarrow> string set"

subsection \<open>Outbound messages\<close>

record syncStatePayload =
  st_isPlaying :: bool
  st_currentTime :: real
  st_serverTime :: int

text \<open>
  The \<^verbatim>\<open>roomState\<close> payload. \<open>rs_room\<close> and \<open>rs_viewerCount\<close> are the object
  \<^verbatim>\<open>{...room, viewerCount}\<close>: a copy of every field of the room, its chat included.
\<close>

record roomStatePayload =
  rs_room :: room
  rs_viewerCount :: nat
  rs_playbackState :: playbackState
  rs_chat :: "chatMessage list"
  rs_viewers :: "viewer list"

datatype event =
    ErrorEvent string
  | RoomState roomStatePayload
  | ViewerJoined viewer
  | ViewerCount nat
  | ViewerLeft string "string option"
  | SyncPlay real int
  | SyncPause real int
  | SyncSeek real int
  | SyncState syncStatePayload
  | NewMessage chatMessage
  | NewReaction reaction
  | SyncHeartbeat "syncStatePayload option"

text \<open>
  The three ways the code addresses a message: \<^verbatim>\<open>socket.emit\<close> (the socket itself),
  \<^verbatim>\<open>socket.to(roomId).emit\<close> (the room without the sending socket) and
  \<^verbatim>\<open>io.to(roomId).emit\<close> (the whole room).
\<close>

datatype target =
    SocketEmit string
  | SocketTo string string
  | IoTo string

type_synonym emit = "target \<times> event"

fun recipients :: "(string \<Rightarrow> string set) \<Rightarrow> target \<Rightarrow> string set" where
  "recipients mem (SocketEmit sid) = {sid}"
| "recipients mem (SocketTo roomId sid) = mem roomId - {sid}"
| "recipients mem (IoTo roomId) = mem roomId"

text \<open>The position carried by the first \<^verbatim>\<open>syncState\<close> message of a list of emitted messages.\<close>

fun reply_currentTime :: "emit list \<Rightarrow> real option" where
  "reply_currentTime [] = None"
| "reply_currentTime ((t, SyncState p) # es) = Some (st_currentTime p)"
| "reply_currentTime (e # es) = reply_currentTime es"

subsection \<open>Library operations\<close>

text \<open>\<^verbatim>\<open>xs.slice(-n)\<close>: the last \<open>n\<close> elements, or all of them when there are fewer.\<close>

definition slice_last :: "nat \<Rightarrow> 'a list \<Rightarrow> 'a list" where
  "slice_last n xs = drop (length xs - n) xs"

text \<open>\<^verbatim>\<open>a || b\<close> on an optional string: absent and empty strings are falsy.\<close>

definition or_default :: "string option \<Rightarrow> string \<Rightarrow> string" where
  "or_default a b = (case a of None \<Rightarrow> b | Some s \<Rightarrow> if s = [] then b else s)"

text \<open>Milliseconds between two clock readings, in seconds.\<close>

definition elapsed :: "int \<Rightarrow> int \<Rightarrow> real" where
  "elapsed now lu = real_of_int (now - lu) / 1000"

section \<open>SyncService\<close>

text \<open>
  \<^verbatim>\<open>createRoom(roomId, roomData)\<close>. The second argument is the address of
  \<^verbatim>\<open>roomData.playbackState\<close>, or \<open>None\<close> when that field is missing and the service makes
  its own object.
\<close>

definition createRoom :: "state \<Rightarrow> string \<Rightarrow> ref option \<Rightarrow> int \<Rightarrow> state" where
  "createRoom st roomId pb now =
     (case pb of
        Some r \<Rightarrow>
          st\<lparr>syncRooms := AList.update roomId
                \<lparr>sync_id = roomId, sync_playbackState = r, syncTolerance = 2,
                 lastSyncBroadcast = now\<rparr> (syncRooms st)\<rparr>
      | None \<Rightarrow>
          st\<lparr>heap := (heap st)(nextRef st :=
                \<lparr>isPlaying = False, currentTime = 0, lastUpdate = now\<rparr>),
             nextRef := Suc (nextRef st),
             syncRooms := AList.update roomId
                \<lparr>sync_id = roomId, sync_playbackState = nextRef st, syncTolerance = 2,
                 lastSyncBroadcast = now\<rparr> (syncRooms st)\<rparr>)"

definition deleteRoom :: "state \<Rightarrow> string \<Rightarrow> state" where
  "deleteRoom st roomId = st\<lparr>syncRooms := AList.delete roomId (syncRooms st)\<rparr>"

text \<open>
  \<^verbatim>\<open>updatePlaybackState(roomId, state)\<close>: the argument is a partial playback state; the
  method builds a new object from the old one and the supplied fields and stores it in
  the room of the service.
\<close>

record partialState =
  p_isPlaying :: "bool option"
  p_currentTime :: "real option"

definition merge_state :: "playbackState \<Rightarrow> partialState \<Rightarrow> int \<Rightarrow> playbackState" where
  "merge_state old p now =
     \<lparr>isPlaying = (case p_isPlaying p of Some b \<Rightarrow> b | None \<Rightarrow> isPlaying old),
      currentTime = (case p_currentTime p of Some c \<Rightarrow> c | None \<Rightarrow> currentTime old),
      lastUpdate = now\<rparr>"

definition updatePlaybackState :: "state \<Rightarrow> string \<Rightarrow> partialState \<Rightarrow> int \<Rightarrow> state" where
  "updatePlaybackState st roomId p now =
     (case map_of (syncRooms st) roomId of
        None \<Rightarrow> st
      | Some r \<Rightarrow>
          st\<lparr>heap := (heap st)(nextRef st :=
                merge_state (heap st (sync_playbackState r)) p now),
             nextRef := Suc (nextRef st),
             syncRooms := AList.update roomId
                (r\<lparr>sync_playbackState := nextRef st\<rparr>) (syncRooms st)\<rparr>)"

definition getCurrentTime :: "state \<Rightarrow> string \<Rightarrow> int \<Rightarrow> real" where
  "getCurrentTime st roomId now =
     (case map_of (syncRooms st) roomId of
        None \<Rightarrow> 0
      | Some r \<Rightarrow>
          let ps = heap st (sync_playbackState r) in
          if isPlaying ps then currentTime ps + elapsed now (lastUpdate ps)
          else currentTime ps)"

definition getPlaybackState :: "state \<Rightarrow> string \<Rightarrow> int \<Rightarrow> syncStatePayload option" where
  "getPlaybackState st roomId now =
     (case map_of (syncRooms st) roomId of
        None \<Rightarrow> None
      | Some r \<Rightarrow>
          Some \<lparr>st_isPlaying = isPlaying (heap st (sync_playbackState r)),
                st_currentTime = getCurrentTime st roomId now,
                st_serverTime = now\<rparr>)"

text \<open>The callback that \<^verbatim>\<open>startSyncBroadcasts\<close> runs every five seconds.\<close>

fun heartbeats :: "state \<Rightarrow> int \<Rightarrow> (string \<times> syncRoom) list \<Rightarrow> emit list" where
  "heartbeats st now [] = []"
| "heartbeats st now ((roomId, r) # rs) =
     (if isPlaying (heap st (sync_playbackState r))
      then (IoTo roomId, SyncHeartbeat (getPlaybackState st roomId now)) # heartbeats st now rs
      else heartbeats st now rs)"

definition syncBroadcast :: "state \<Rightarrow> int \<Rightarrow> emit list" where
  "syncBroadcast st now = heartbeats st now (syncRooms st)"

section \<open>The handlers of server.js\<close>

subsection \<open>Room creation\<close>

datatype response =
    Success room
  | Failure nat string

text \<open>
  \<^verbatim>\<open>POST /api/rooms\<close>, after the authentication middleware. \<open>uuid\<close> is the value that
  \<^verbatim>\<open>uuidv4()\<close> returns. The new playback-state object is allocated once and handed to the
  \<^verbatim>\<open>SyncService\<close>, which keeps the same address.
\<close>

definition post_api_rooms ::
  "state \<Rightarrow> string \<Rightarrow> string option \<Rightarrow> string \<Rightarrow> int \<Rightarrow> state \<times> response" where
  "post_api_rooms st mid name uuid now =
     (case movies st mid of
        None \<Rightarrow> (st, Failure 404 ''Movie not found'')
      | Some m \<Rightarrow>
          if transcodeStatus m \<noteq> Completed
          then (st, Failure 400 ''Movie transcoding not completed'')
          else
            let roomId = take 8 uuid;
                r = nextRef st;
                room = \<lparr>room_id = roomId,
                        room_name = or_default name (''Room '' @ roomId),
                        movieId = mid, createdAt = now, viewers = [],
                        playbackState = r, chat = [], reactions = []\<rparr>;
                st1 = st\<lparr>rooms := (rooms st)(roomId \<mapsto> room),
                         heap := (heap st)(r :=
                           \<lparr>isPlaying = False, currentTime = 0, lastUpdate = now\<rparr>),
                         nextRef := Suc r\<rparr>
            in (createRoom st1 roomId (Some r) now, Success room))"

subsection \<open>Membership\<close>

definition on_joinRoom ::
  "state \<Rightarrow> string \<Rightarrow> string \<Rightarrow> string option \<Rightarrow> int \<Rightarrow> state \<times> emit list" where
  "on_joinRoom st sid roomId username now =
     (case rooms st roomId of
        None \<Rightarrow> (st, [(SocketEmit sid, ErrorEvent ''Room not found'')])
      | Some room \<Rightarrow>
          let uname = or_default username (''Viewer '' @ take 4 sid);
              v = \<lparr>viewer_id = sid, viewer_username = uname, joinedAt = now\<rparr>;
              room' = room\<lparr>viewers := viewers room @ [v]\<rparr>;
              st' = st\<lparr>rooms := (rooms st)(roomId \<mapsto> room'),
                       sock := (sock st)(sid :=
                         \<lparr>socket_roomId = Some roomId, socket_username = Some uname\<rparr>),
                       members := (members st)(roomId := insert sid (members st roomId))\<rparr>
          in (st',
              [(SocketEmit sid, RoomState
                  \<lparr>rs_room = room', rs_viewerCount = length (viewers room'),
                   rs_playbackState = heap st (playbackState room),
                   rs_chat = slice_last 50 (chat room'),
                   rs_viewers = viewers room'\<rparr>),
               (SocketTo roomId sid, ViewerJoined v),
               (IoTo roomId, ViewerCount (length (viewers room')))]))"

text \<open>
  \<^verbatim>\<open>handleLeaveRoom(socket)\<close>, called by the \<^verbatim>\<open>leaveRoom\<close> and \<^verbatim>\<open>disconnect\<close> handlers. The
  test \<^verbatim>\<open>if (socket.roomId)\<close> fails for a missing and for an empty room id. The property
  \<^verbatim>\<open>socket.roomId\<close> is not cleared.
\<close>

definition handleLeaveRoom :: "state \<Rightarrow> string \<Rightarrow> state \<times> emit list" where
  "handleLeaveRoom st sid =
     (case socket_roomId (sock st sid) of
        None \<Rightarrow> (st, [])
      | Some roomId \<Rightarrow>
          if roomId = [] then (st, [])
          else
            (case rooms st roomId of
               None \<Rightarrow>
                 (st\<lparr>members := (members st)(roomId := members st roomId - {sid})\<rparr>, [])
             | Some room \<Rightarrow>
                 let room' = room\<lparr>viewers := filter (\<lambda>v. viewer_id v \<noteq> sid) (viewers room)\<rparr>
                 in (st\<lparr>rooms := (rooms st)(roomId \<mapsto> room'),
                        members := (members st)(roomId := members st roomId - {sid})\<rparr>,
                     [(SocketTo roomId sid,
                         ViewerLeft sid (socket_username (sock st sid))),
                      (IoTo roomId, ViewerCount (length (viewers room')))])))"

definition on_leaveRoom :: "state \<Rightarrow> string \<Rightarrow> state \<times> emit list" where
  "on_leaveRoom st sid = handleLeaveRoom st sid"

subsection \<open>Transport control\<close>

definition on_play :: "state \<Rightarrow> string \<Rightarrow> string \<Rightarrow> real \<Rightarrow> int \<Rightarrow> state \<times> emit list" where
  "on_play st sid roomId ct now =
     (case rooms st roomId of
        None \<Rightarrow> (st, [])
      | Some room \<Rightarrow>
          (st\<lparr>heap := (heap st)(playbackState room :=
                (heap st (playbackState room))
                  \<lparr>isPlaying := True, currentTime := ct, lastUpdate := now\<rparr>)\<rparr>,
           [(SocketTo roomId sid, SyncPlay ct now)]))"

definition on_pause :: "state \<Rightarrow> string \<Rightarrow> string \<Rightarrow> real \<Rightarrow> int \<Rightarrow> state \<times> emit list" where
  "on_pause st sid roomId ct now =
     (case rooms st roomId of
        None \<Rightarrow> (st, [])
      | Some room \<Rightarrow>
          (st\<lparr>heap := (heap st)(playbackState room :=
                (heap st (playbackState room))
                  \<lparr>isPlaying := False, currentTime := ct, lastUpdate := now\<rparr>)\<rparr>,
           [(SocketTo roomId sid, SyncPause ct now)]))"

definition on_seek :: "state \<Rightarrow> string \<Rightarrow> string \<Rightarrow> real \<Rightarrow> int \<Rightarrow> state \<times> emit list" where
  "on_seek st sid roomId ct now =
     (case rooms st roomId of
        None \<Rightarrow> (st, [])
      | Some room \<Rightarrow>
          (st\<lparr>heap := (heap st)(playbackState room :=
                (heap st (playbackState room))
                  \<lparr>currentTime := ct, lastUpdate := now\<rparr>)\<rparr>,
           [(SocketTo roomId sid, SyncSeek ct now)]))"

definition on_requestSync :: "state \<Rightarrow> string \<Rightarrow> string \<Rightarrow> int \<Rightarrow> state \<times> emit list" where
  "on_requestSync st sid roomId now =
     (case rooms st roomId of
        None \<Rightarrow> (st, [])
      | Some room \<Rightarrow>
          let ps = heap st (playbackState room);
              ct = (if isPlaying ps then currentTime ps + elapsed now (lastUpdate ps)
                    else currentTime ps)
          in (st, [(SocketEmit sid, SyncState
                     \<lparr>st_isPlaying = isPlaying ps, st_currentTime = ct,
                      st_serverTime = now\<rparr>)]))"

subsection \<open>Chat and reactions\<close>

definition on_chatMessage ::
  "state \<Rightarrow> string \<Rightarrow> string \<Rightarrow> string \<Rightarrow> string \<Rightarrow> int \<Rightarrow> state \<times> emit list" where
  "on_chatMessage st sid roomId msg uuid now =
     (case rooms st roomId of
        None \<Rightarrow> (st, [])
      | Some room \<Rightarrow>
          let m = \<lparr>msg_id = uuid, msg_username = socket_username (sock st sid),
                   message = take 500 msg, timestamp = now\<rparr>;
              pushed = chat room @ [m];
              kept = (if length pushed > 200 then slice_last 200 pushed else pushed)
          in (st\<lparr>rooms := (rooms st)(roomId \<mapsto> room\<lparr>chat := kept\<rparr>)\<rparr>,
              [(IoTo roomId, NewMessage m)]))"

definition on_reaction ::
  "state \<Rightarrow> string \<Rightarrow> string \<Rightarrow> string \<Rightarrow> string \<Rightarrow> int \<Rightarrow> state \<times> emit list" where
  "on_reaction st sid roomId em uuid now =
     (case rooms st roomId of
        None \<Rightarrow> (st, [])
      | Some room \<Rightarrow>
          (st, [(IoTo roomId, NewReaction
                   \<lparr>reaction_id = uuid, reaction_username = socket_username (sock st sid),
                    emoji = em, reaction_timestamp = now\<rparr>)]))"

subsection \<open>Concrete states\<close>

text \<open>
  The server after start-up, with one movie whose transcoding has completed, and the
  same server after one room has been created at clock reading 1000.
\<close>

definition server0 :: state where
  "server0 =
     \<lparr>rooms = Map.empty,
      movies = [''m1'' \<mapsto>
        \<lparr>movie_id = ''m1'', originalName = ''film.mp4'', transcodeStatus = Completed\<rparr>],
      syncRooms = [],
      heap = (\<lambda>_. \<lparr>isPlaying = False, currentTime = 0, lastUpdate = 0\<rparr>),
      nextRef = 0,
      sock = (\<lambda>_. \<lparr>socket_roomId = None, socket_username = None\<rparr>),
      members = (\<lambda>_. {})\<rparr>"

definition server1 :: state where
  "server1 = fst (post_api_rooms server0 ''m1'' None ''abcdef0123456789'' 1000)"

text \<open>The two records of that room, and the server after a client has sent \<^verbatim>\<open>play\<close> with
  position 0 at clock reading 2000.\<close>

definition room1 :: room where
  "room1 = \<lparr>room_id = ''abcdef01'', room_name = ''Room abcdef01'', movieId = ''m1'',
            createdAt = 1000, viewers = [], playbackState = 0, chat = [], reactions = []\<rparr>"

definition syncRoom1 :: syncRoom where
  "syncRoom1 = \<lparr>sync_id = ''abcdef01'', sync_playbackState = 0, syncTolerance = 2,
                lastSyncBroadcast = 1000\<rparr>"

definition server2 :: state where
  "server2 = fst (on_play server1 ''s1'' ''abcdef01'' 0 2000)"

text \<open>Two viewers have joined the room: \<open>s1\<close> under the name ann, \<open>s2\<close> without a name.\<close>

definition server_joined :: state where
  "server_joined =
     fst (on_joinRoom (fst (on_joinRoom server1 ''s1'' ''abcdef01'' (Some ''ann'') 1100))
       ''s2'' ''abcdef01'' None 1200)"

text \<open>
  A second room has been created at reading 1500 and stays paused; the first room is
  played from position 10 at reading 2000.
\<close>

definition server_two :: state where
  "server_two =
     fst (on_play (fst (post_api_rooms server1 ''m1'' (Some ''Lounge'') ''0123456789abcdef'' 1500))
       ''s1'' ''abcdef01'' 10 2000)"

definition syncRoom2 :: syncRoom where
  "syncRoom2 = \<lparr>sync_id = ''01234567'', sync_playbackState = 1, syncTolerance = 2,
                lastSyncBroadcast = 1500\<rparr>"

subsection \<open>Runs of chat events\<close>

text \<open>
  A \<^verbatim>\<open>chatMessage\<close> event as the server sees it: the sending socket, the text, the id
  that \<^verbatim>\<open>uuidv4()\<close> returns and the clock reading. \<open>chat_record\<close> is the record the handler
  builds for it, and \<open>chatMessages\<close> delivers a list of such events to one room, in order.
\<close>

type_synonym chatEvent = "string \<times> string \<times> string \<times> int"

definition chat_record :: "state \<Rightarrow> chatEvent \<Rightarrow> chatMessage" where
  "chat_record st e =
     (case e of (sid, msg, uuid, now) \<Rightarrow>
        \<lparr>msg_id = uuid, msg_username = socket_username (sock st sid),
         message = take 500 msg, timestamp = now\<rparr>)"

fun chatMessages :: "state \<Rightarrow> string \<Rightarrow> chatEvent list \<Rightarrow> state" where
  "chatMessages st roomId [] = st"
| "chatMessages st roomId ((sid, msg, uuid, now) # es) =
     chatMessages (fst (on_chatMessage st sid roomId msg uuid now)) roomId es"

text \<open>
  The room after 51 chat messages from the socket \<open>s1\<close>, which has not joined and so has
  no user name; \<open>viewer2\<close> is the roster entry of a socket \<open>s2\<close> that joins afterwards.
\<close>

definition msg0 :: chatMessage where
  "msg0 = \<lparr>msg_id = ''id'', msg_username = None, message = ''hi'', timestamp = 3000\<rparr>"

definition server_chatty :: state where
  "server_chatty = chatMessages server1 ''abcdef01'' (replicate 51 (''s1'', ''hi'', ''id'', 3000))"

definition viewer2 :: viewer where
  "viewer2 = \<lparr>viewer_id = ''s2'', viewer_username = ''Viewer s2'', joinedAt = 4000\<rparr>"

section \<open>The clock model of the specification\<close>

text \<open>
  The reference definition, written from the words of the specification and not from the
  code: \<open>extrapolate(anchor, now)\<close> is the position of a paused anchor, and for a playing
  anchor the position plus \<open>max(0, now - lastUpdate)\<close> in seconds.
\<close>

definition extrapolate_spec :: "playbackState \<Rightarrow> int \<Rightarrow> real" where
  "extrapolate_spec anchor now =
     (if isPlaying anchor
      then currentTime anchor + max 0 (real_of_int (now - lastUpdate anchor) / 1000)
      else currentTime anchor)"

section \<open>Auxiliary facts\<close>

subsection \<open>The concrete states\<close>

lemma server1_eq:
  "server1 = server0\<lparr>rooms := [''abcdef01'' \<mapsto> room1],
      heap := (heap server0)(0 := \<lparr>isPlaying = False, currentTime = 0, lastUpdate = 1000\<rparr>),
      nextRef := 1, syncRooms := [(''abcdef01'', syncRoom1)]\<rparr>"
  by (simp add: server1_def post_api_rooms_def server0_def createRoom_def Let_def
      or_default_def room1_def syncRoom1_def)

lemma server1_rooms [simp]: "rooms server1 ''abcdef01'' = Some room1"
  by (simp add: server1_eq)

lemma server1_syncRooms [simp]: "syncRooms server1 = [(''abcdef01'', syncRoom1)]"
  by (simp add: server1_eq)

lemma server1_heap [simp]:
  "heap server1 0 = \<lparr>isPlaying = False, currentTime = 0, lastUpdate = 1000\<rparr>"
  by (simp add: server1_eq)

lemma room1_ref [simp]: "playbackState room1 = 0"
  by (simp add: room1_def)

lemma syncRoom1_ref [simp]: "sync_playbackState syncRoom1 = 0"
  by (simp add: syncRoom1_def)

lemma server2_rooms [simp]: "rooms server2 ''abcdef01'' = Some room1"
  by (simp add: server2_def on_play_def)

lemma server2_syncRooms [simp]: "syncRooms server2 = [(''abcdef01'', syncRoom1)]"
  by (simp add: server2_def on_play_def)

lemma server2_heap [simp]:
  "heap server2 0 = \<lparr>isPlaying = True, currentTime = 0, lastUpdate = 2000\<rparr>"
  by (simp add: server2_def on_play_def)

lemma server1_members [simp]: "members server1 = (\<lambda>_. {})"
  by (simp add: server1_eq server0_def)

lemma server1_sock [simp]:
  "sock server1 = (\<lambda>_. \<lparr>socket_roomId = None, socket_username = None\<rparr>)"
  by (simp add: server1_eq server0_def)

lemma room1_viewers [simp]: "viewers room1 = []"
  by (simp add: room1_def)

lemma room1_chat [simp]: "chat room1 = []"
  by (simp add: room1_def)

lemma server_joined_members: "members server_joined ''abcdef01'' = {''s1'', ''s2''}"
  by (auto simp add: server_joined_def on_joinRoom_def Let_def)

lemma server_joined_rooms:
  "rooms server_joined ''abcdef01'' =
     Some (room1\<lparr>viewers :=
       [\<lparr>viewer_id = ''s1'', viewer_username = ''ann'', joinedAt = 1100\<rparr>,
        \<lparr>viewer_id = ''s2'', viewer_username = ''Viewer s2'', joinedAt = 1200\<rparr>]\<rparr>)"
  by (simp add: server_joined_def on_joinRoom_def Let_def or_default_def)

lemma server_joined_sock:
  "sock server_joined ''s1'' = \<lparr>socket_roomId = Some ''abcdef01'', socket_username = Some ''ann''\<rparr>"
  by (simp add: server_joined_def on_joinRoom_def Let_def or_default_def)

lemma server_two_syncRooms:
  "syncRooms server_two = [(''abcdef01'', syncRoom1), (''01234567'', syncRoom2)]"
  by (simp add: server_two_def on_play_def post_api_rooms_def Let_def server1_eq server0_def
      createRoom_def syncRoom2_def or_default_def)

lemma server_two_heap:
  "heap server_two 0 = \<lparr>isPlaying = True, currentTime = 10, lastUpdate = 2000\<rparr>"
  "heap server_two 1 = \<lparr>isPlaying = False, currentTime = 0, lastUpdate = 1500\<rparr>"
  by (simp_all add: server_two_def on_play_def post_api_rooms_def Let_def server1_eq server0_def
      createRoom_def room1_def or_default_def)

subsection \<open>The keys of the service's map stay distinct, and a new room shares its anchor\<close>

lemma createRoom_distinct:
  "distinct (map fst (syncRooms st)) \<Longrightarrow> distinct (map fst (syncRooms (createRoom st roomId pb now)))"
  by (simp add: createRoom_def distinct_update split: option.splits)

lemma deleteRoom_distinct:
  "distinct (map fst (syncRooms st)) \<Longrightarrow> distinct (map fst (syncRooms (deleteRoom st roomId)))"
  by (simp add: deleteRoom_def distinct_delete)

lemma updatePlaybackState_distinct:
  "distinct (map fst (syncRooms st)) \<Longrightarrow>
   distinct (map fst (syncRooms (updatePlaybackState st roomId p now)))"
  by (simp add: updatePlaybackState_def distinct_update split: option.splits)

lemma post_api_rooms_distinct:
  "distinct (map fst (syncRooms st)) \<Longrightarrow>
   distinct (map fst (syncRooms (fst (post_api_rooms st mid name uuid now))))"
  by (simp add: post_api_rooms_def Let_def createRoom_def distinct_update split: option.splits)

lemma post_api_rooms_shares_anchor:
  assumes "movies st mid = Some m" and "transcodeStatus m = Completed"
  shows "\<exists>room r. rooms (fst (post_api_rooms st mid name uuid now)) (take 8 uuid) = Some room \<and>
     map_of (syncRooms (fst (post_api_rooms st mid name uuid now))) (take 8 uuid) = Some r \<and>
     sync_playbackState r = playbackState room \<and>
     heap (fst (post_api_rooms st mid name uuid now)) (playbackState room) =
       \<lparr>isPlaying = False, currentTime = 0, lastUpdate = now\<rparr>"
  using assms by (simp add: post_api_rooms_def Let_def createRoom_def update_conv')

subsection \<open>The last elements of a list\<close>

lemma slice_last_length: "length (slice_last n xs) = min n (length xs)"
  by (simp add: slice_last_def)

lemma slice_last_short: "length xs \<le> n \<Longrightarrow> slice_last n xs = xs"
  by (simp add: slice_last_def)

lemma slice_last_absorb: "slice_last n (slice_last n xs @ ys) = slice_last n (xs @ ys)"
proof (cases "length xs \<le> n")
  case True
  then show ?thesis by (simp add: slice_last_short)
next
  case False
  then have "length xs - n + length ys = length xs + length ys - n"
    by simp
  with False show ?thesis
    by (simp add: slice_last_def add.commute)
qed

lemma slice_last_long: "n \<le> length ys \<Longrightarrow> slice_last n (xs @ ys) = drop (length ys - n) ys"
  by (simp add: slice_last_def)

subsection \<open>What a chat message changes\<close>

lemma on_chatMessage_rooms:
  assumes "rooms st roomId = Some room"
  shows "rooms (fst (on_chatMessage st sid roomId msg uuid now)) roomId =
      Some (room\<lparr>chat := slice_last 200 (chat room @ [chat_record st (sid, msg, uuid, now)])\<rparr>)"
  using assms
  by (simp add: on_chatMessage_def Let_def chat_record_def slice_last_short)

lemma on_chatMessage_sock: "sock (fst (on_chatMessage st sid roomId msg uuid now)) = sock st"
  by (simp add: on_chatMessage_def Let_def split: option.splits)

lemma on_chatMessage_heap: "heap (fst (on_chatMessage st sid roomId msg uuid now)) = heap st"
  by (simp add: on_chatMessage_def Let_def split: option.splits)

lemma on_chatMessage_members:
  "members (fst (on_chatMessage st sid roomId msg uuid now)) = members st"
  by (simp add: on_chatMessage_def Let_def split: option.splits)

lemma chat_record_cong: "sock st' = sock st \<Longrightarrow> chat_record st' = chat_record st"
  by (auto simp add: chat_record_def fun_eq_iff)

lemma chatMessages_heap: "heap (chatMessages st roomId es) = heap st"
  by (induction st roomId es rule: chatMessages.induct) (simp_all add: on_chatMessage_heap)

lemma chatMessages_members: "members (chatMessages st roomId es) = members st"
  by (induction st roomId es rule: chatMessages.induct) (simp_all add: on_chatMessage_members)

lemma chatMessages_sock: "sock (chatMessages st roomId es) = sock st"
  by (induction st roomId es rule: chatMessages.induct) (simp_all add: on_chatMessage_sock)

lemma chatMessages_rooms:
  "rooms st roomId = Some room \<Longrightarrow> es \<noteq> [] \<Longrightarrow>
   rooms (chatMessages st roomId es) roomId =
     Some (room\<lparr>chat := slice_last 200 (chat room @ map (chat_record st) es)\<rparr>)"
proof (induction st roomId es arbitrary: room rule: chatMessages.induct)
  case (1 st roomId)
  then show ?case by simp
next
  case (2 st roomId sid msg uuid now es)
  let ?st1 = "fst (on_chatMessage st sid roomId msg uuid now)"
  let ?m = "chat_record st (sid, msg, uuid, now)"
  let ?room1 = "room\<lparr>chat := slice_last 200 (chat room @ [?m])\<rparr>"
  have r1: "rooms ?st1 roomId = Some ?room1"
    using "2.prems"(1) by (rule on_chatMessage_rooms)
  show ?case
  proof (cases "es = []")
    case True
    with r1 show ?thesis by simp
  next
    case False
    have rec: "chat_record ?st1 = chat_record st"
      by (rule chat_record_cong) (rule on_chatMessage_sock)
    from "2.IH" [OF r1 False] rec
    have "rooms (chatMessages ?st1 roomId es) roomId =
        Some (?room1\<lparr>chat := slice_last 200 (chat ?room1 @ map (chat_record st) es)\<rparr>)"
      by simp
    then show ?thesis
      using slice_last_absorb [of 200 "chat room @ [?m]" "map (chat_record st) es"]
      by simp
  qed
qed

lemma server_chatty_rooms:
  "rooms server_chatty ''abcdef01'' = Some (room1\<lparr>chat := replicate 51 msg0\<rparr>)"
proof -
  have rec: "chat_record server1 (''s1'', ''hi'', ''id'', 3000) = msg0"
    by (simp add: chat_record_def msg0_def)
  have "replicate 51 (''s1'', ''hi'', ''id'', 3000 :: int) \<noteq> []"
    by simp
  from chatMessages_rooms [OF server1_rooms this] rec show ?thesis
    by (simp add: server_chatty_def slice_last_short)
qed

lemma server_chatty_heap: "heap server_chatty 0 = \<lparr>isPlaying = False, currentTime = 0, lastUpdate = 1000\<rparr>"
  by (simp add: server_chatty_def chatMessages_heap)

lemma server_joined_sock_other:
  "sock server_joined ''s9'' = \<lparr>socket_roomId = None, socket_username = None\<rparr>"
  by (simp add: server_joined_def on_joinRoom_def Let_def or_default_def)

section \<open>The clock model in the code\<close>

text \<open>
  Claim C1. The position computed by \<^verbatim>\<open>getCurrentTime\<close> and by the \<^verbatim>\<open>requestSync\<close> handler
  agrees with the reference definition of the specification: for a paused anchor it is
  the stored position whatever the clock says; for a playing anchor and a clock reading
  \<open>now\<close> not before \<open>lastUpdate\<close> it is the stored position plus \<open>now - lastUpdate\<close>
  in seconds, and it does not decrease when \<open>now\<close> grows.
\<close>

theorem extrapolation_matches_reference:
  assumes "map_of (syncRooms st) sroomId = Some r"
    and "heap st (sync_playbackState r) = a"
    and "rooms st roomId = Some room"
    and "heap st (playbackState room) = b"
  shows
    "(\<not> isPlaying a \<longrightarrow> getCurrentTime st sroomId now = currentTime a) \<and>
     (isPlaying a \<and> lastUpdate a \<le> now \<longrightarrow>
        getCurrentTime st sroomId now =
          currentTime a + real_of_int (now - lastUpdate a) / 1000) \<and>
     (isPlaying a \<and> lastUpdate a \<le> now \<and> now \<le> now' \<longrightarrow>
        getCurrentTime st sroomId now \<le> getCurrentTime st sroomId now') \<and>
     ((isPlaying a \<longrightarrow> lastUpdate a \<le> now) \<longrightarrow>
        getCurrentTime st sroomId now = extrapolate_spec a now) \<and>
     (\<not> isPlaying b \<longrightarrow>
        reply_currentTime (snd (on_requestSync st sid roomId now)) = Some (currentTime b)) \<and>
     (isPlaying b \<and> lastUpdate b \<le> now \<longrightarrow>
        reply_currentTime (snd (on_requestSync st sid roomId now)) =
          Some (currentTime b + real_of_int (now - lastUpdate b) / 1000)) \<and>
     (isPlaying b \<and> lastUpdate b \<le> now \<and> now \<le> now' \<longrightarrow>
        (\<exists>t t'. reply_currentTime (snd (on_requestSync st sid roomId now)) = Some t \<and>
           reply_currentTime (snd (on_requestSync st sid roomId now')) = Some t' \<and>
           t \<le> t')) \<and>
     ((isPlaying b \<longrightarrow> lastUpdate b \<le> now) \<longrightarrow>
        reply_currentTime (snd (on_requestSync st sid roomId now)) =
          Some (extrapolate_spec b now))"
  using assms
  by (auto simp add: getCurrentTime_def on_requestSync_def elapsed_def extrapolate_spec_def
      Let_def divide_right_mono)

text \<open>C1 at the playing room (read at 7000 and 8000) and at the paused room.\<close>

theorem extrapolation_matches_reference_witness:
  "map_of (syncRooms server2) ''abcdef01'' = Some syncRoom1 \<and>
   rooms server2 ''abcdef01'' = Some room1 \<and>
   isPlaying (heap server2 0) \<and> lastUpdate (heap server2 0) \<le> 7000 \<and>
   getCurrentTime server2 ''abcdef01'' 7000 = 5 \<and>
   getCurrentTime server2 ''abcdef01'' 7000 \<le> getCurrentTime server2 ''abcdef01'' 8000 \<and>
   getCurrentTime server2 ''abcdef01'' 7000 = extrapolate_spec (heap server2 0) 7000 \<and>
   reply_currentTime (snd (on_requestSync server2 ''s2'' ''abcdef01'' 7000)) = Some 5 \<and>
   \<not> isPlaying (heap server1 0) \<and>
   getCurrentTime server1 ''abcdef01'' 7000 = 0 \<and>
   reply_currentTime (snd (on_requestSync server1 ''s2'' ''abcdef01'' 7000)) = Some 0"
  using extrapolation_matches_reference [of server2 "''abcdef01''" syncRoom1
      "\<lparr>isPlaying = True, currentTime = 0, lastUpdate = 2000\<rparr>" "''abcdef01''" room1
      "\<lparr>isPlaying = True, currentTime = 0, lastUpdate = 2000\<rparr>" 7000 8000 "''s2''"]
    extrapolation_matches_reference [of server1 "''abcdef01''" syncRoom1
      "\<lparr>isPlaying = False, currentTime = 0, lastUpdate = 1000\<rparr>" "''abcdef01''" room1
      "\<lparr>isPlaying = False, currentTime = 0, lastUpdate = 1000\<rparr>" 7000 8000 "''s2''"]
  by simp

text \<open>
  Claim C2 says that a playing anchor read at any clock value, also one before
  \<open>lastUpdate\<close>, yields the position plus \<open>max 0 (now - lastUpdate)\<close>, so never less than
  the position and never a negative number. The code has no such bound: the anchor
  played from position 0 at reading 2000 and read at 1000 yields \<open>-1\<close>.
\<close>

theorem stale_read_counterexample:
  "isPlaying (heap server2 0) \<and> 0 \<le> currentTime (heap server2 0) \<and>
   1000 < lastUpdate (heap server2 0) \<and>
   getCurrentTime server2 ''abcdef01'' 1000 = - 1 \<and>
   reply_currentTime (snd (on_requestSync server2 ''s2'' ''abcdef01'' 1000)) = Some (- 1) \<and>
   currentTime (heap server2 0) + max 0 (real_of_int (1000 - lastUpdate (heap server2 0)) / 1000) = 0 \<and>
   getCurrentTime server2 ''abcdef01'' 1000 \<noteq> extrapolate_spec (heap server2 0) 1000 \<and>
   getCurrentTime server2 ''abcdef01'' 1000 < currentTime (heap server2 0) \<and>
   getCurrentTime server2 ''abcdef01'' 1000 < 0"
  by (simp add: getCurrentTime_def on_requestSync_def elapsed_def extrapolate_spec_def)

text \<open>
  Claim C2, amended. For a playing anchor and every clock reading \<open>now\<close> the code returns
  the position plus \<open>now - lastUpdate\<close> in seconds, a negative increment included. For
  a reading \<open>now\<close> that is not before \<open>lastUpdate\<close> the result is at least the position,
  equals the position plus \<open>max 0 (now - lastUpdate)\<close> and is not negative when the
  position is not.
\<close>

theorem extrapolation_unclamped:
  assumes "map_of (syncRooms st) sroomId = Some r"
    and "heap st (sync_playbackState r) = a"
    and "rooms st roomId = Some room"
    and "heap st (playbackState room) = b"
    and "isPlaying a" and "isPlaying b"
  shows
    "getCurrentTime st sroomId now = currentTime a + real_of_int (now - lastUpdate a) / 1000 \<and>
     reply_currentTime (snd (on_requestSync st sid roomId now)) =
       Some (currentTime b + real_of_int (now - lastUpdate b) / 1000) \<and>
     (lastUpdate a \<le> now \<longrightarrow> currentTime a \<le> getCurrentTime st sroomId now) \<and>
     (lastUpdate a \<le> now \<longrightarrow>
        getCurrentTime st sroomId now =
          currentTime a + max 0 (real_of_int (now - lastUpdate a) / 1000)) \<and>
     (lastUpdate a \<le> now \<and> 0 \<le> currentTime a \<longrightarrow> 0 \<le> getCurrentTime st sroomId now) \<and>
     (lastUpdate b \<le> now \<longrightarrow>
        reply_currentTime (snd (on_requestSync st sid roomId now)) =
          Some (currentTime b + max 0 (real_of_int (now - lastUpdate b) / 1000)))"
  using assms
  by (auto simp add: getCurrentTime_def on_requestSync_def elapsed_def Let_def max_def)

text \<open>The amended C2 at the playing room, read at 7000.\<close>

theorem extrapolation_unclamped_witness:
  "map_of (syncRooms server2) ''abcdef01'' = Some syncRoom1 \<and>
   rooms server2 ''abcdef01'' = Some room1 \<and>
   isPlaying (heap server2 0) \<and> lastUpdate (heap server2 0) \<le> 7000 \<and>
   0 \<le> currentTime (heap server2 0) \<and>
   getCurrentTime server2 ''abcdef01'' 7000 = 5 \<and>
   0 \<le> getCurrentTime server2 ''abcdef01'' 7000 \<and>
   reply_currentTime (snd (on_requestSync server2 ''s2'' ''abcdef01'' 7000)) = Some 5"
  using extrapolation_unclamped [of server2 "''abcdef01''" syncRoom1
      "\<lparr>isPlaying = True, currentTime = 0, lastUpdate = 2000\<rparr>" "''abcdef01''" room1
      "\<lparr>isPlaying = True, currentTime = 0, lastUpdate = 2000\<rparr>" 7000 "''s2''"]
  by simp

section \<open>Transport control\<close>

text \<open>
  Claim C3 says that an anchor update whose clock reading is earlier than the stored
  \<open>lastUpdate\<close> is rejected and leaves the anchor as it was. No handler compares the two:
  the room played at reading 2000 and paused at reading 1500 takes the new anchor.
\<close>

theorem stale_update_counterexample:
  "rooms server2 ''abcdef01'' = Some room1 \<and>
   heap server2 (playbackState room1) =
     \<lparr>isPlaying = True, currentTime = 0, lastUpdate = 2000\<rparr> \<and>
   (1500 :: int) < lastUpdate (heap server2 (playbackState room1)) \<and>
   heap (fst (on_pause server2 ''s1'' ''abcdef01'' 7 1500)) (playbackState room1) =
     \<lparr>isPlaying = False, currentTime = 7, lastUpdate = 1500\<rparr> \<and>
   heap (fst (on_pause server2 ''s1'' ''abcdef01'' 7 1500)) (playbackState room1) \<noteq>
     heap server2 (playbackState room1)"
  by (simp add: on_pause_def)

text \<open>
  Claim C3, amended. Every anchor update is applied, whatever its clock reading: \<^verbatim>\<open>play\<close>
  and \<^verbatim>\<open>pause\<close> store the flag, the position and \<open>now\<close>; \<^verbatim>\<open>seek\<close> stores the position and
  \<open>now\<close> and keeps the flag; \<^verbatim>\<open>updatePlaybackState\<close> stores the merged fields and \<open>now\<close>. An
  update whose reading is earlier than the stored \<open>lastUpdate\<close> therefore always changes
  the stored anchor.
\<close>

theorem updates_always_applied:
  assumes "rooms st roomId = Some room"
    and "map_of (syncRooms st) sroomId = Some r"
  shows
    "heap (fst (on_play st sid roomId ct now)) (playbackState room) =
       \<lparr>isPlaying = True, currentTime = ct, lastUpdate = now\<rparr> \<and>
     heap (fst (on_pause st sid roomId ct now)) (playbackState room) =
       \<lparr>isPlaying = False, currentTime = ct, lastUpdate = now\<rparr> \<and>
     heap (fst (on_seek st sid roomId ct now)) (playbackState room) =
       \<lparr>isPlaying = isPlaying (heap st (playbackState room)), currentTime = ct,
        lastUpdate = now\<rparr> \<and>
     (\<exists>r'. map_of (syncRooms (updatePlaybackState st sroomId p now)) sroomId = Some r' \<and>
        heap (updatePlaybackState st sroomId p now) (sync_playbackState r') =
          \<lparr>isPlaying = (case p_isPlaying p of Some b \<Rightarrow> b
                        | None \<Rightarrow> isPlaying (heap st (sync_playbackState r))),
           currentTime = (case p_currentTime p of Some c \<Rightarrow> c
                          | None \<Rightarrow> currentTime (heap st (sync_playbackState r))),
           lastUpdate = now\<rparr>) \<and>
     (now < lastUpdate (heap st (playbackState room)) \<longrightarrow>
        heap (fst (on_play st sid roomId ct now)) (playbackState room) \<noteq>
          heap st (playbackState room) \<and>
        heap (fst (on_pause st sid roomId ct now)) (playbackState room) \<noteq>
          heap st (playbackState room) \<and>
        heap (fst (on_seek st sid roomId ct now)) (playbackState room) \<noteq>
          heap st (playbackState room))"
proof -
  let ?ref = "playbackState room"
  have upd: "map_of (syncRooms (updatePlaybackState st sroomId p now)) sroomId =
      Some (r\<lparr>sync_playbackState := nextRef st\<rparr>)"
    using assms(2) by (simp add: updatePlaybackState_def update_conv')
  have hp: "heap (updatePlaybackState st sroomId p now) (nextRef st) =
      merge_state (heap st (sync_playbackState r)) p now"
    using assms(2) by (simp add: updatePlaybackState_def)
  have play: "heap (fst (on_play st sid roomId ct now)) ?ref =
      \<lparr>isPlaying = True, currentTime = ct, lastUpdate = now\<rparr>"
    using assms(1) by (simp add: on_play_def)
  have pause: "heap (fst (on_pause st sid roomId ct now)) ?ref =
      \<lparr>isPlaying = False, currentTime = ct, lastUpdate = now\<rparr>"
    using assms(1) by (simp add: on_pause_def)
  have seek: "heap (fst (on_seek st sid roomId ct now)) ?ref =
      \<lparr>isPlaying = isPlaying (heap st ?ref), currentTime = ct, lastUpdate = now\<rparr>"
    using assms(1) by (simp add: on_seek_def)
  have changed: "a \<noteq> heap st ?ref"
    if "now < lastUpdate (heap st ?ref)" and "lastUpdate a = now" for a
    using that by auto
  show ?thesis
    using upd hp play pause seek changed
    by (simp add: merge_state_def)
qed

text \<open>The amended C3 at the playing room, with updates read at 1500, before 2000.\<close>

theorem updates_always_applied_witness:
  "rooms server2 ''abcdef01'' = Some room1 \<and>
   map_of (syncRooms server2) ''abcdef01'' = Some syncRoom1 \<and>
   (1500 :: int) < lastUpdate (heap server2 (playbackState room1)) \<and>
   heap (fst (on_play server2 ''s1'' ''abcdef01'' 7 1500)) (playbackState room1) =
     \<lparr>isPlaying = True, currentTime = 7, lastUpdate = 1500\<rparr> \<and>
   heap (fst (on_seek server2 ''s1'' ''abcdef01'' 7 1500)) (playbackState room1) \<noteq>
     heap server2 (playbackState room1) \<and>
   (\<exists>r'. map_of (syncRooms (updatePlaybackState server2 ''abcdef01''
             \<lparr>p_isPlaying = Some False, p_currentTime = None\<rparr> 1500)) ''abcdef01'' = Some r' \<and>
      heap (updatePlaybackState server2 ''abcdef01''
             \<lparr>p_isPlaying = Some False, p_currentTime = None\<rparr> 1500) (sync_playbackState r') =
        \<lparr>isPlaying = False, currentTime = 0, lastUpdate = 1500\<rparr>)"
  using updates_always_applied [of server2 "''abcdef01''" room1 "''abcdef01''" syncRoom1
      "''s1''" 7 1500 "\<lparr>p_isPlaying = Some False, p_currentTime = None\<rparr>"]
  by simp

text \<open>
  Claim C4. In any existing room, \<^verbatim>\<open>play\<close> at position 0 and reading 0, \<^verbatim>\<open>seek\<close> to 50 at
  reading 1 and \<^verbatim>\<open>pause\<close> at 52 at reading 2, followed by \<^verbatim>\<open>requestSync\<close> at reading 3,
  produce one message, addressed to the requesting socket alone: a \<^verbatim>\<open>syncState\<close> with
  \<open>isPlaying\<close> false and \<open>currentTime\<close> 52 (and the reading 3 as \<open>serverTime\<close>).
\<close>

theorem play_seek_pause_then_sync:
  assumes "rooms st roomId = Some room"
  shows
    "snd (on_requestSync
       (fst (on_pause (fst (on_seek (fst (on_play st s1 roomId 0 0)) s2 roomId 50 1))
          s3 roomId 52 2)) s4 roomId 3) =
       [(SocketEmit s4,
         SyncState \<lparr>st_isPlaying = False, st_currentTime = 52, st_serverTime = 3\<rparr>)] \<and>
     recipients mem (SocketEmit s4) = {s4}"
  using assms
  by (simp add: on_requestSync_def on_pause_def on_seek_def on_play_def)

text \<open>C4 at the freshly created room: \<open>s1\<close> drives the transport, \<open>s2\<close> asks for the state.\<close>

theorem play_seek_pause_then_sync_witness:
  "rooms server1 ''abcdef01'' = Some room1 \<and>
   snd (on_requestSync
       (fst (on_pause (fst (on_seek (fst (on_play server1 ''s1'' ''abcdef01'' 0 0))
          ''s1'' ''abcdef01'' 50 1)) ''s1'' ''abcdef01'' 52 2)) ''s2'' ''abcdef01'' 3) =
       [(SocketEmit ''s2'',
         SyncState \<lparr>st_isPlaying = False, st_currentTime = 52, st_serverTime = 3\<rparr>)]"
  using play_seek_pause_then_sync [of server1 "''abcdef01''" room1 "''s1''" "''s1''" "''s1''"
      "''s2''"]
  by simp

text \<open>
  Claim C6. For an existing room, \<^verbatim>\<open>play\<close> with a position at clock reading \<open>now\<close> leaves
  the anchor of the room equal to \<open>isPlaying = True\<close>, that position and
  \<open>lastUpdate = now\<close>, all three fields written in the one step of the handler; it emits
  exactly one message, \<^verbatim>\<open>syncPlay\<close> with the position and \<open>serverTime = now\<close>, which goes to
  the members of the room without the sending socket. Nothing else of the state changes.
\<close>

theorem play_sets_anchor_and_broadcasts:
  assumes "rooms st roomId = Some room"
  shows
    "heap (fst (on_play st sid roomId position now)) (playbackState room) =
       \<lparr>isPlaying = True, currentTime = position, lastUpdate = now\<rparr> \<and>
     snd (on_play st sid roomId position now) = [(SocketTo roomId sid, SyncPlay position now)] \<and>
     recipients (members (fst (on_play st sid roomId position now))) (SocketTo roomId sid) =
       members st roomId - {sid} \<and>
     rooms (fst (on_play st sid roomId position now)) = rooms st \<and>
     syncRooms (fst (on_play st sid roomId position now)) = syncRooms st \<and>
     (\<forall>a. a \<noteq> playbackState room \<longrightarrow>
        heap (fst (on_play st sid roomId position now)) a = heap st a)"
  using assms by (simp add: on_play_def)

text \<open>C6 at the room with two viewers: \<open>s1\<close> plays, \<open>s2\<close> is the one recipient.\<close>

theorem play_sets_anchor_and_broadcasts_witness:
  "rooms server_joined ''abcdef01'' =
     Some (room1\<lparr>viewers :=
       [\<lparr>viewer_id = ''s1'', viewer_username = ''ann'', joinedAt = 1100\<rparr>,
        \<lparr>viewer_id = ''s2'', viewer_username = ''Viewer s2'', joinedAt = 1200\<rparr>]\<rparr>) \<and>
   heap (fst (on_play server_joined ''s1'' ''abcdef01'' 12 3000)) 0 =
     \<lparr>isPlaying = True, currentTime = 12, lastUpdate = 3000\<rparr> \<and>
   snd (on_play server_joined ''s1'' ''abcdef01'' 12 3000) =
     [(SocketTo ''abcdef01'' ''s1'', SyncPlay 12 3000)] \<and>
   recipients (members (fst (on_play server_joined ''s1'' ''abcdef01'' 12 3000)))
     (SocketTo ''abcdef01'' ''s1'') = {''s2''} \<and>
   heap (fst (on_play server_joined ''s1'' ''abcdef01'' 12 3000)) 1 = heap server_joined 1"
proof -
  note w = play_sets_anchor_and_broadcasts [OF server_joined_rooms, of "''s1''" 12 3000]
  have ref: "playbackState (room1\<lparr>viewers :=
       [\<lparr>viewer_id = ''s1'', viewer_username = ''ann'', joinedAt = 1100\<rparr>,
        \<lparr>viewer_id = ''s2'', viewer_username = ''Viewer s2'', joinedAt = 1200\<rparr>]\<rparr>) = 0"
    by simp
  have others: "{''s1'', ''s2''} - {''s1''} = {''s2''}"
    by auto
  from w have "heap (fst (on_play server_joined ''s1'' ''abcdef01'' 12 3000)) 1 =
      heap server_joined 1"
    unfolding ref by simp
  with w show ?thesis
    unfolding ref by (simp add: server_joined_rooms server_joined_members others)
qed

section \<open>The heartbeat\<close>

lemma heartbeats_sent:
  "(roomId, r) \<in> set rs \<Longrightarrow> isPlaying (heap st (sync_playbackState r)) \<Longrightarrow>
   (IoTo roomId, SyncHeartbeat (getPlaybackState st roomId now)) \<in> set (heartbeats st now rs)"
  by (induction rs) auto

lemma heartbeats_origin:
  "e \<in> set (heartbeats st now rs) \<Longrightarrow>
   \<exists>roomId r. (roomId, r) \<in> set rs \<and> isPlaying (heap st (sync_playbackState r)) \<and>
     e = (IoTo roomId, SyncHeartbeat (getPlaybackState st roomId now))"
proof (induction rs)
  case Nil
  then show ?case by simp
next
  case (Cons x rs)
  obtain roomId r where x: "x = (roomId, r)"
    by (cases x)
  show ?case
  proof (cases "e = (IoTo roomId, SyncHeartbeat (getPlaybackState st roomId now)) \<and>
      isPlaying (heap st (sync_playbackState r))")
    case True
    with x show ?thesis by auto
  next
    case False
    with Cons.prems x have "e \<in> set (heartbeats st now rs)"
      by (auto split: if_splits)
    with Cons.IH obtain roomId' r' where
      "(roomId', r') \<in> set rs" "isPlaying (heap st (sync_playbackState r'))"
      "e = (IoTo roomId', SyncHeartbeat (getPlaybackState st roomId' now))"
      by blast
    then show ?thesis by auto
  qed
qed

text \<open>
  Claim C5. At a tick of the broadcast timer, every room of the service whose anchor is
  playing is sent a \<^verbatim>\<open>syncHeartbeat\<close> that carries the extrapolated position, the stored
  position plus the seconds since \<open>lastUpdate\<close> (15 for position 10 five seconds after
  \<open>lastUpdate\<close>); a room whose anchor is paused is sent nothing, and every message of
  the tick is the heartbeat of a playing room.
\<close>

theorem heartbeat_playing_rooms_only:
  assumes "distinct (map fst (syncRooms st))"
    and "(roomId, r) \<in> set (syncRooms st)"
    and "heap st (sync_playbackState r) = a"
  shows
    "(isPlaying a \<longrightarrow>
        (IoTo roomId, SyncHeartbeat (Some
           \<lparr>st_isPlaying = True,
            st_currentTime = currentTime a + real_of_int (now - lastUpdate a) / 1000,
            st_serverTime = now\<rparr>)) \<in> set (syncBroadcast st now)) \<and>
     (isPlaying a \<and> currentTime a = 10 \<and> now = lastUpdate a + 5000 \<longrightarrow>
        (IoTo roomId, SyncHeartbeat (Some
           \<lparr>st_isPlaying = True, st_currentTime = 15, st_serverTime = now\<rparr>))
          \<in> set (syncBroadcast st now)) \<and>
     (\<not> isPlaying a \<longrightarrow> (\<forall>e \<in> set (syncBroadcast st now). fst e \<noteq> IoTo roomId)) \<and>
     (\<forall>e \<in> set (syncBroadcast st now). \<exists>roomId' p. e = (IoTo roomId', SyncHeartbeat (Some p)) \<and> st_isPlaying p)"
proof -
  have look: "map_of (syncRooms st) roomId = Some r"
    using assms(1,2) by simp
  have payload: "getPlaybackState st roomId now =
      Some \<lparr>st_isPlaying = isPlaying a,
            st_currentTime = (if isPlaying a
              then currentTime a + real_of_int (now - lastUpdate a) / 1000
              else currentTime a),
            st_serverTime = now\<rparr>"
    using look assms(3) by (simp add: getPlaybackState_def getCurrentTime_def elapsed_def)
  have sent: "(IoTo roomId, SyncHeartbeat (Some
           \<lparr>st_isPlaying = True,
            st_currentTime = currentTime a + real_of_int (now - lastUpdate a) / 1000,
            st_serverTime = now\<rparr>)) \<in> set (syncBroadcast st now)" if "isPlaying a"
    using heartbeats_sent [of roomId r "syncRooms st" st now] assms(2,3) that payload
    by (simp add: syncBroadcast_def)
  have skipped: "fst e \<noteq> IoTo roomId" if "\<not> isPlaying a" and "e \<in> set (syncBroadcast st now)" for e
  proof
    assume eq: "fst e = IoTo roomId"
    from that(2) obtain roomId' r' where
      mem: "(roomId', r') \<in> set (syncRooms st)" and
      play: "isPlaying (heap st (sync_playbackState r'))" and
      e: "e = (IoTo roomId', SyncHeartbeat (getPlaybackState st roomId' now))"
      using heartbeats_origin [of e st now "syncRooms st"] by (auto simp add: syncBroadcast_def)
    from eq e have "roomId' = roomId" by simp
    with mem assms(1) look have "r' = r" by simp
    with play assms(3) that(1) show False by simp
  qed
  have shape: "\<exists>roomId' p. e = (IoTo roomId', SyncHeartbeat (Some p)) \<and> st_isPlaying p"
    if "e \<in> set (syncBroadcast st now)" for e
  proof -
    from that obtain roomId' r' where
      mem: "(roomId', r') \<in> set (syncRooms st)" and
      play: "isPlaying (heap st (sync_playbackState r'))" and
      e: "e = (IoTo roomId', SyncHeartbeat (getPlaybackState st roomId' now))"
      using heartbeats_origin [of e st now "syncRooms st"] by (auto simp add: syncBroadcast_def)
    from mem assms(1) have "map_of (syncRooms st) roomId' = Some r'" by simp
    with play e show ?thesis by (simp add: getPlaybackState_def)
  qed
  from sent have ex15: "(IoTo roomId, SyncHeartbeat (Some
           \<lparr>st_isPlaying = True, st_currentTime = 15, st_serverTime = now\<rparr>))
          \<in> set (syncBroadcast st now)"
    if "isPlaying a" "currentTime a = 10" "now = lastUpdate a + 5000"
    using that by simp
  show ?thesis
    using sent skipped shape ex15 by blast
qed

text \<open>C5 at the server with a playing and a paused room, at a tick at reading 7000.\<close>

theorem heartbeat_playing_rooms_only_witness:
  "distinct (map fst (syncRooms server_two)) \<and>
   (''abcdef01'', syncRoom1) \<in> set (syncRooms server_two) \<and>
   heap server_two (sync_playbackState syncRoom1) =
     \<lparr>isPlaying = True, currentTime = 10, lastUpdate = 2000\<rparr> \<and>
   (''01234567'', syncRoom2) \<in> set (syncRooms server_two) \<and>
   \<not> isPlaying (heap server_two (sync_playbackState syncRoom2)) \<and>
   (IoTo ''abcdef01'', SyncHeartbeat (Some
      \<lparr>st_isPlaying = True, st_currentTime = 15, st_serverTime = 7000\<rparr>))
     \<in> set (syncBroadcast server_two 7000) \<and>
   (IoTo ''01234567'', SyncHeartbeat (Some
      \<lparr>st_isPlaying = False, st_currentTime = 0, st_serverTime = 7000\<rparr>))
     \<notin> set (syncBroadcast server_two 7000)"
proof -
  have d: "distinct (map fst (syncRooms server_two))"
    by (simp add: server_two_syncRooms)
  have m1: "(''abcdef01'', syncRoom1) \<in> set (syncRooms server_two)"
    and m2: "(''01234567'', syncRoom2) \<in> set (syncRooms server_two)"
    by (simp_all add: server_two_syncRooms)
  have h1: "heap server_two (sync_playbackState syncRoom1) =
      \<lparr>isPlaying = True, currentTime = 10, lastUpdate = 2000\<rparr>"
    and h2: "heap server_two (sync_playbackState syncRoom2) =
      \<lparr>isPlaying = False, currentTime = 0, lastUpdate = 1500\<rparr>"
    using server_two_heap by (simp_all add: syncRoom2_def)
  have playing: "(IoTo ''abcdef01'', SyncHeartbeat (Some
      \<lparr>st_isPlaying = True, st_currentTime = 15, st_serverTime = 7000\<rparr>))
     \<in> set (syncBroadcast server_two 7000)"
    using heartbeat_playing_rooms_only [OF d m1 h1, of 7000] by simp
  have paused: "\<forall>e \<in> set (syncBroadcast server_two 7000). fst e \<noteq> IoTo ''01234567''"
    using heartbeat_playing_rooms_only [OF d m2 h2, of 7000] by simp
  from paused have "(IoTo ''01234567'', SyncHeartbeat (Some
      \<lparr>st_isPlaying = False, st_currentTime = 0, st_serverTime = 7000\<rparr>))
     \<notin> set (syncBroadcast server_two 7000)"
    by fastforce
  with d m1 m2 h1 h2 playing show ?thesis
    by simp
qed

section \<open>Membership\<close>

text \<open>
  Claim C7. Leaving is idempotent. A second \<^verbatim>\<open>leaveRoom\<close> of the same socket gives the
  state and the messages of the first, so the roster is the one a single leave produces
  (the entries of the socket filtered out once) and the announced viewer count is the
  same; for a socket that has not joined, \<^verbatim>\<open>leaveRoom\<close> changes nothing and emits nothing.
  The handler has no failing branch. (The second leave does send \<^verbatim>\<open>viewerLeft\<close> and
  \<^verbatim>\<open>viewerCount\<close> again, with the unchanged count.)
\<close>

theorem leave_idempotent:
  "handleLeaveRoom (fst (handleLeaveRoom st sid)) sid = handleLeaveRoom st sid \<and>
   on_leaveRoom (fst (on_leaveRoom st sid)) sid = on_leaveRoom st sid \<and>
   (socket_roomId (sock st sid) = None \<longrightarrow> on_leaveRoom st sid = (st, [])) \<and>
   (\<forall>roomId room.
      socket_roomId (sock st sid) = Some roomId \<and> roomId \<noteq> [] \<and> rooms st roomId = Some room \<longrightarrow>
      (\<exists>room'. rooms (fst (on_leaveRoom (fst (on_leaveRoom st sid)) sid)) roomId = Some room' \<and>
         viewers room' = filter (\<lambda>v. viewer_id v \<noteq> sid) (viewers room) \<and>
         snd (on_leaveRoom (fst (on_leaveRoom st sid)) sid) =
           [(SocketTo roomId sid, ViewerLeft sid (socket_username (sock st sid))),
            (IoTo roomId, ViewerCount (length (filter (\<lambda>v. viewer_id v \<noteq> sid) (viewers room))))]))"
proof -
  have twice: "handleLeaveRoom (fst (handleLeaveRoom st sid)) sid = handleLeaveRoom st sid"
    by (simp add: handleLeaveRoom_def Let_def split: option.splits)
  have never: "handleLeaveRoom st sid = (st, [])" if "socket_roomId (sock st sid) = None"
    using that by (simp add: handleLeaveRoom_def)
  have roster: "\<exists>room'. rooms (fst (handleLeaveRoom st sid)) roomId = Some room' \<and>
         viewers room' = filter (\<lambda>v. viewer_id v \<noteq> sid) (viewers room) \<and>
         snd (handleLeaveRoom st sid) =
           [(SocketTo roomId sid, ViewerLeft sid (socket_username (sock st sid))),
            (IoTo roomId, ViewerCount (length (filter (\<lambda>v. viewer_id v \<noteq> sid) (viewers room))))]"
    if "socket_roomId (sock st sid) = Some roomId" "roomId \<noteq> []" "rooms st roomId = Some room"
    for roomId room
    using that by (simp add: handleLeaveRoom_def Let_def)
  show ?thesis
    unfolding on_leaveRoom_def twice using never roster by blast
qed

text \<open>
  C7 at the room with two viewers: \<open>s1\<close> leaves twice and \<open>s2\<close> stays, counted once; the
  socket \<open>s9\<close> has never joined.
\<close>

theorem leave_idempotent_witness:
  "socket_roomId (sock server_joined ''s1'') = Some ''abcdef01'' \<and>
   rooms server_joined ''abcdef01'' =
     Some (room1\<lparr>viewers :=
       [\<lparr>viewer_id = ''s1'', viewer_username = ''ann'', joinedAt = 1100\<rparr>,
        \<lparr>viewer_id = ''s2'', viewer_username = ''Viewer s2'', joinedAt = 1200\<rparr>]\<rparr>) \<and>
   (\<exists>room'. rooms (fst (on_leaveRoom (fst (on_leaveRoom server_joined ''s1'')) ''s1''))
        ''abcdef01'' = Some room' \<and>
      viewers room' =
        [\<lparr>viewer_id = ''s2'', viewer_username = ''Viewer s2'', joinedAt = 1200\<rparr>]) \<and>
   snd (on_leaveRoom (fst (on_leaveRoom server_joined ''s1'')) ''s1'') =
     [(SocketTo ''abcdef01'' ''s1'', ViewerLeft ''s1'' (Some ''ann'')),
      (IoTo ''abcdef01'', ViewerCount 1)] \<and>
   socket_roomId (sock server_joined ''s9'') = None \<and>
   on_leaveRoom server_joined ''s9'' = (server_joined, [])"
proof -
  note w = leave_idempotent [of server_joined]
  have joined: "socket_roomId (sock server_joined ''s1'') = Some ''abcdef01''"
    by (simp add: server_joined_sock)
  have never: "socket_roomId (sock server_joined ''s9'') = None"
    by (simp add: server_joined_sock_other)
  from w [of "''s9''"] never have a: "on_leaveRoom server_joined ''s9'' = (server_joined, [])"
    by simp
  let ?room = "room1\<lparr>viewers :=
       [\<lparr>viewer_id = ''s1'', viewer_username = ''ann'', joinedAt = 1100\<rparr>,
        \<lparr>viewer_id = ''s2'', viewer_username = ''Viewer s2'', joinedAt = 1200\<rparr>]\<rparr>"
  from w [of "''s1''"]
  have step: "socket_roomId (sock server_joined ''s1'') = Some ''abcdef01'' \<and>
      ''abcdef01'' \<noteq> [] \<and> rooms server_joined ''abcdef01'' = Some ?room \<longrightarrow>
      (\<exists>room'. rooms (fst (on_leaveRoom (fst (on_leaveRoom server_joined ''s1'')) ''s1''))
           ''abcdef01'' = Some room' \<and>
         viewers room' = filter (\<lambda>v. viewer_id v \<noteq> ''s1'') (viewers ?room) \<and>
         snd (on_leaveRoom (fst (on_leaveRoom server_joined ''s1'')) ''s1'') =
           [(SocketTo ''abcdef01'' ''s1'',
               ViewerLeft ''s1'' (socket_username (sock server_joined ''s1''))),
            (IoTo ''abcdef01'',
               ViewerCount (length (filter (\<lambda>v. viewer_id v \<noteq> ''s1'') (viewers ?room))))])"
    by blast
  from step joined server_joined_rooms
  have b: "\<exists>room'. rooms (fst (on_leaveRoom (fst (on_leaveRoom server_joined ''s1'')) ''s1''))
        ''abcdef01'' = Some room' \<and>
      viewers room' =
        [\<lparr>viewer_id = ''s2'', viewer_username = ''Viewer s2'', joinedAt = 1200\<rparr>] \<and>
      snd (on_leaveRoom (fst (on_leaveRoom server_joined ''s1'')) ''s1'') =
        [(SocketTo ''abcdef01'' ''s1'', ViewerLeft ''s1'' (Some ''ann'')),
         (IoTo ''abcdef01'', ViewerCount 1)]"
    by (simp add: server_joined_sock)
  from a b joined never server_joined_rooms show ?thesis
    by auto
qed

section \<open>Chat\<close>

text \<open>
  Claim C8. The chat of a room is bounded by 200. After any non-empty run of chat
  messages the room holds the last 200 entries of its former chat followed by the new
  records, in arrival order; after more than 200 messages these are exactly the 200 most
  recent of the new records, the oldest ones dropped. Each single \<^verbatim>\<open>chatMessage\<close> leaves at
  most 200 entries.
\<close>

theorem chat_history_bounded:
  assumes "rooms st roomId = Some room"
  shows
    "(es \<noteq> [] \<longrightarrow>
        (\<exists>room'. rooms (chatMessages st roomId es) roomId = Some room' \<and>
           chat room' = slice_last 200 (chat room @ map (chat_record st) es) \<and>
           length (chat room') \<le> 200)) \<and>
     (200 < length es \<longrightarrow>
        (\<exists>room'. rooms (chatMessages st roomId es) roomId = Some room' \<and>
           chat room' = drop (length es - 200) (map (chat_record st) es) \<and>
           length (chat room') = 200)) \<and>
     (\<exists>room'. rooms (fst (on_chatMessage st sid roomId msg uuid now)) roomId = Some room' \<and>
        chat room' = slice_last 200 (chat room @ [chat_record st (sid, msg, uuid, now)]) \<and>
        length (chat room') \<le> 200)"
proof -
  have many: "\<exists>room'. rooms (chatMessages st roomId es) roomId = Some room' \<and>
           chat room' = slice_last 200 (chat room @ map (chat_record st) es) \<and>
           length (chat room') \<le> 200" if "es \<noteq> []"
    using chatMessages_rooms [OF assms that] by (simp add: slice_last_length)
  have over: "\<exists>room'. rooms (chatMessages st roomId es) roomId = Some room' \<and>
           chat room' = drop (length es - 200) (map (chat_record st) es) \<and>
           length (chat room') = 200" if "200 < length es"
  proof -
    from that have ne: "es \<noteq> []" by auto
    from that have "slice_last 200 (chat room @ map (chat_record st) es) =
        drop (length es - 200) (map (chat_record st) es)"
      using slice_last_long [of 200 "map (chat_record st) es" "chat room"] by simp
    with chatMessages_rooms [OF assms ne] that show ?thesis by simp
  qed
  have one: "\<exists>room'. rooms (fst (on_chatMessage st sid roomId msg uuid now)) roomId = Some room' \<and>
        chat room' = slice_last 200 (chat room @ [chat_record st (sid, msg, uuid, now)]) \<and>
        length (chat room') \<le> 200"
    using on_chatMessage_rooms [OF assms] by (simp add: slice_last_length)
  from many over one show ?thesis by blast
qed

text \<open>C8 after 201 messages to the freshly created room.\<close>

theorem chat_history_bounded_witness:
  "rooms server1 ''abcdef01'' = Some room1 \<and>
   200 < length (replicate 201 (''s1'', ''hi'', ''id'', 3000 :: int)) \<and>
   (\<exists>room'. rooms (chatMessages server1 ''abcdef01''
        (replicate 201 (''s1'', ''hi'', ''id'', 3000))) ''abcdef01'' = Some room' \<and>
      chat room' = replicate 200 msg0 \<and> length (chat room') = 200)"
proof -
  have rec: "chat_record server1 (''s1'', ''hi'', ''id'', 3000) = msg0"
    by (simp add: chat_record_def msg0_def)
  have len: "200 < length (replicate 201 (''s1'', ''hi'', ''id'', 3000 :: int))"
    by simp
  from chat_history_bounded [OF server1_rooms, of "replicate 201 (''s1'', ''hi'', ''id'', 3000)"]
    len rec
  show ?thesis by simp
qed

section \<open>Events for a room that does not exist\<close>

text \<open>
  Claim C9 says that every client event naming an unknown room is answered with a
  \<open>room not found\<close> notice to its sender. Only \<^verbatim>\<open>joinRoom\<close> does so; a \<^verbatim>\<open>play\<close> or a
  \<^verbatim>\<open>chatMessage\<close> for an unknown room returns at its guard and sends nothing at all.
\<close>

theorem missing_room_counterexample:
  "rooms server1 ''nowhere'' = None \<and>
   on_play server1 ''s1'' ''nowhere'' 5 3000 = (server1, []) \<and>
   on_chatMessage server1 ''s1'' ''nowhere'' ''hello'' ''id1'' 3000 = (server1, [])"
  by (simp add: on_play_def on_chatMessage_def server1_eq)

text \<open>
  Claim C9, amended. For a room id that is not in the registry, \<^verbatim>\<open>joinRoom\<close> sends the
  sender alone an error event with the message \<open>Room not found\<close>; \<^verbatim>\<open>play\<close>, \<^verbatim>\<open>pause\<close>,
  \<^verbatim>\<open>seek\<close>, \<^verbatim>\<open>requestSync\<close>, \<^verbatim>\<open>chatMessage\<close> and \<^verbatim>\<open>reaction\<close> send nothing to anyone. In all
  seven cases the state is unchanged and the handler returns.
\<close>

theorem missing_room_ignored:
  assumes "rooms st roomId = None"
  shows
    "on_joinRoom st sid roomId username now =
       (st, [(SocketEmit sid, ErrorEvent ''Room not found'')]) \<and>
     recipients (members st) (SocketEmit sid) = {sid} \<and>
     on_play st sid roomId ct now = (st, []) \<and>
     on_pause st sid roomId ct now = (st, []) \<and>
     on_seek st sid roomId ct now = (st, []) \<and>
     on_requestSync st sid roomId now = (st, []) \<and>
     on_chatMessage st sid roomId msg uuid now = (st, []) \<and>
     on_reaction st sid roomId em uuid now = (st, [])"
  using assms
  by (simp add: on_joinRoom_def on_play_def on_pause_def on_seek_def on_requestSync_def
      on_chatMessage_def on_reaction_def)

text \<open>The amended C9 at the room id \<open>nowhere\<close>, unknown to the server with one room.\<close>

theorem missing_room_ignored_witness:
  "rooms server1 ''nowhere'' = None \<and>
   on_joinRoom server1 ''s1'' ''nowhere'' (Some ''ann'') 3000 =
     (server1, [(SocketEmit ''s1'', ErrorEvent ''Room not found'')]) \<and>
   on_seek server1 ''s1'' ''nowhere'' 5 3000 = (server1, []) \<and>
   on_reaction server1 ''s1'' ''nowhere'' ''ok'' ''id1'' 3000 = (server1, [])"
proof -
  have none: "rooms server1 ''nowhere'' = None"
    by (simp add: server1_eq)
  from missing_room_ignored [OF none] none show ?thesis
    by simp
qed

section \<open>The reply to a joining viewer\<close>

text \<open>
  Claim C10 says that a joiner never receives the whole retained chat once more than 50
  messages have accumulated. The \<^verbatim>\<open>roomState\<close> payload carries the room itself next to
  the shortened list: with 51 messages retained, its field \<open>rs_chat\<close> has the last 50 and
  its field \<open>rs_room\<close> has all 51.
\<close>

theorem joiner_receives_history_counterexample:
  "rooms server_chatty ''abcdef01'' = Some (room1\<lparr>chat := replicate 51 msg0\<rparr>) \<and>
   50 < length (chat (room1\<lparr>chat := replicate 51 msg0\<rparr>)) \<and>
   snd (on_joinRoom server_chatty ''s2'' ''abcdef01'' None 4000) =
     [(SocketEmit ''s2'', RoomState
        \<lparr>rs_room = room1\<lparr>viewers := [viewer2], chat := replicate 51 msg0\<rparr>,
         rs_viewerCount = 1,
         rs_playbackState = \<lparr>isPlaying = False, currentTime = 0, lastUpdate = 1000\<rparr>,
         rs_chat = replicate 50 msg0,
         rs_viewers = [viewer2]\<rparr>),
      (SocketTo ''abcdef01'' ''s2'', ViewerJoined viewer2),
      (IoTo ''abcdef01'', ViewerCount 1)] \<and>
   chat (room1\<lparr>viewers := [viewer2], chat := replicate 51 msg0\<rparr>) =
     chat (room1\<lparr>chat := replicate 51 msg0\<rparr>)"
  by (simp add: on_joinRoom_def server_chatty_rooms server_chatty_heap Let_def or_default_def
      viewer2_def slice_last_def)

text \<open>
  Claim C10, amended. In the \<^verbatim>\<open>roomState\<close> reply to a joining viewer the field \<^verbatim>\<open>chat\<close> holds
  the last 50 retained messages, or all of them when there are fewer; the field \<^verbatim>\<open>room\<close>
  of the same reply is a copy of the room and holds the whole retained chat.
\<close>

theorem roomState_chat_fields:
  assumes "rooms st roomId = Some room"
  shows
    "\<exists>p rest. snd (on_joinRoom st sid roomId username now) =
         (SocketEmit sid, RoomState p) # rest \<and>
       rs_chat p = slice_last 50 (chat room) \<and>
       length (rs_chat p) \<le> 50 \<and>
       chat (rs_room p) = chat room \<and>
       (50 < length (chat room) \<longrightarrow>
          rs_chat p = drop (length (chat room) - 50) (chat room) \<and>
          length (rs_chat p) = 50 \<and>
          length (chat (rs_room p)) = length (chat room))"
  using assms
  by (simp add: on_joinRoom_def Let_def slice_last_length) (simp add: slice_last_def)

text \<open>The amended C10 at the room with 51 messages.\<close>

theorem roomState_chat_fields_witness:
  "rooms server_chatty ''abcdef01'' = Some (room1\<lparr>chat := replicate 51 msg0\<rparr>) \<and>
   50 < length (chat (room1\<lparr>chat := replicate 51 msg0\<rparr>)) \<and>
   (\<exists>p rest. snd (on_joinRoom server_chatty ''s2'' ''abcdef01'' None 4000) =
         (SocketEmit ''s2'', RoomState p) # rest \<and>
       rs_chat p = replicate 50 msg0 \<and>
       chat (rs_room p) = replicate 51 msg0)"
  using roomState_chat_fields [OF server_chatty_rooms, of "''s2''" None 4000]
  by (auto simp add: server_chatty_rooms)

end
